theory Spec2Isabelle
  imports Main "HOL-Library.Word"
begin

section \<open>Go values used by the service\<close>

text \<open>
  A Go \<open>string\<close> is a sequence of bytes and so is a \<open>[]byte\<close>; an Isabelle \<open>char\<close> is one
  byte, hence both are \<open>string\<close> here and the conversion \<open>[]byte(password)\<close> is the identity.
  \<open>int32\<close> and \<open>int64\<close> are two's complement words, read with \<open>sint\<close>.
\<close>

type_synonym bytes = string
type_synonym int32 = "32 word"
type_synonym int64 = "64 word"

subsection \<open>Errors\<close>

text \<open>
  The package-level error values. \<open>ErrInvalidCredentials\<close>, \<open>ErrInvalidAppId\<close> and
  \<open>ErrUserExists\<close> are the three \<open>errors.New\<close> values of package \<open>auth\<close>. The code also
  names \<open>storage.ErrUserExists\<close>, \<open>storage.ErrUserNotFound\<close> and \<open>storage.ErrAppNotFound\<close>;
  package \<open>storage\<close> is imported by \<open>auth\<close>, so it cannot refer to the values of \<open>auth\<close>
  and its three values are further, separate constructors.
\<close>

datatype sentinel =
    ErrInvalidCredentials
  | ErrInvalidAppId
  | ErrUserExists
  | storage_ErrUserExists
  | storage_ErrUserNotFound
  | storage_ErrAppNotFound

text \<open>
  An error value is one of the package-level values, an error made by a library outside
  the repository (bcrypt, the database driver, the token signer; kept with its text), or
  the result of \<open>fmt.Errorf\<close> with one \<open>%w\<close> verb, which keeps the wrapped error below a
  text prefix. These are the only ways in which the code builds errors.
\<close>

datatype error =
    Sentinel sentinel
  | Foreign string
  | WrapError string error

text \<open>
  \<open>fmt.Errorf("%s:%w", op, err)\<close> is \<open>fmt_Errorf '':'' op err\<close> and
  \<open>fmt.Errorf("%s: %w", op, err)\<close> is \<open>fmt_Errorf '': '' op err\<close>: the first argument is
  the text of the format between the two verbs.
\<close>

definition fmt_Errorf :: "string \<Rightarrow> string \<Rightarrow> error \<Rightarrow> error" where
  "fmt_Errorf sep op err = WrapError (op @ sep) err"

text \<open>
  \<open>errors.Is(err, target)\<close> walks the chain of wrapped errors and compares each link with
  the target. Every target in the code is a package-level value, and no wrapper is one.
\<close>

fun errors_Is :: "error \<Rightarrow> sentinel \<Rightarrow> bool" where
  "errors_Is (Sentinel s) target = (s = target)"
| "errors_Is (Foreign msg) target = False"
| "errors_Is (WrapError prefix err) target = errors_Is err target"

subsection \<open>Domain models\<close>

text \<open>
  Modelled from the spec: \<open>models.User\<close> and \<open>models.App\<close> are declared in package
  \<open>sso/internal/domain/models\<close>, which is not among the sources. The spec's data model gives
  a user an identifier, an email and a password hash, and an application an identifier, a
  name and a signing secret. The code reads only \<open>user.PassHash\<close>.
\<close>

record User =
  User_ID :: int64
  User_Email :: string
  User_PassHash :: bytes

record App =
  App_ID :: int64
  App_Name :: string
  App_Secret :: string

section \<open>Package auth: the authentication core\<close>

text \<open>
  The collaborators are interfaces over a store the core does not own. A call takes the
  state of the outside world (type \<open>'s\<close>) and returns Go's pair of a value and an error
  (\<open>None\<close> is \<open>nil\<close>) together with the new state. The context argument carries no data the
  code reads and is left out, as are the log calls, which return nothing.
\<close>

record 's Auth =
  userSaver_SaveUser :: "string \<Rightarrow> bytes \<Rightarrow> 's \<Rightarrow> (int64 \<times> error option) \<times> 's"
  userProvider_User :: "string \<Rightarrow> 's \<Rightarrow> (User \<times> error option) \<times> 's"
  userProvider_IsAdmin :: "int64 \<Rightarrow> 's \<Rightarrow> (bool \<times> error option) \<times> 's"
  appProvider_App :: "int64 \<Rightarrow> 's \<Rightarrow> (App \<times> error option) \<times> 's"
  tokenTTL :: int64

text \<open>
  The library functions the core calls: \<open>bcrypt.CompareHashAndPassword\<close> (a function of its
  arguments), \<open>bcrypt.GenerateFromPassword\<close> (draws a random salt) and \<open>jwt.NewToken\<close>
  (reads the clock; package \<open>sso/internal/lib/jwt\<close> is not among the sources). They are
  parameters of the model.
\<close>

record 's lib =
  bcrypt_CompareHashAndPassword :: "bytes \<Rightarrow> bytes \<Rightarrow> error option"
  bcrypt_GenerateFromPassword :: "bytes \<Rightarrow> int \<Rightarrow> 's \<Rightarrow> (bytes \<times> error option) \<times> 's"
  jwt_NewToken :: "User \<Rightarrow> App \<Rightarrow> int64 \<Rightarrow> 's \<Rightarrow> (string \<times> error option) \<times> 's"

definition bcrypt_DefaultCost :: int where
  "bcrypt_DefaultCost = 10"

definition Login ::
  "'s lib \<Rightarrow> 's Auth \<Rightarrow> string \<Rightarrow> string \<Rightarrow> int64 \<Rightarrow> 's \<Rightarrow> (string \<times> error option) \<times> 's" where
  "Login L a email password appId s =
    (let op = ''auth.Login'';
         ((user, err), s1) = userProvider_User a email s
     in case err of
          Some e \<Rightarrow>
            if errors_Is e ErrInvalidCredentials
            then (('''', Some (fmt_Errorf '':'' op (Sentinel ErrInvalidCredentials))), s1)
            else (('''', Some (fmt_Errorf '':'' op e)), s1)
        | None \<Rightarrow>
            (case bcrypt_CompareHashAndPassword L (User_PassHash user) password of
               Some e \<Rightarrow> (('''', Some (fmt_Errorf '':'' op (Sentinel ErrInvalidCredentials))), s1)
             | None \<Rightarrow>
                 (let ((app, err), s2) = appProvider_App a appId s1
                  in case err of
                       Some e \<Rightarrow> (('''', Some (fmt_Errorf '':'' op e)), s2)
                     | None \<Rightarrow>
                         (let ((token, err), s3) = jwt_NewToken L user app (tokenTTL a) s2
                          in case err of
                               Some e \<Rightarrow> (('''', Some (fmt_Errorf '':'' op e)), s3)
                             | None \<Rightarrow> ((token, None), s3)))))"

definition RegisterNewUser ::
  "'s lib \<Rightarrow> 's Auth \<Rightarrow> string \<Rightarrow> string \<Rightarrow> 's \<Rightarrow> (int64 \<times> error option) \<times> 's" where
  "RegisterNewUser L a email password s =
    (let op = ''auth.RegisterNewUser'';
         ((passHash, err), s1) = bcrypt_GenerateFromPassword L password bcrypt_DefaultCost s
     in case err of
          Some e \<Rightarrow> ((0, Some (fmt_Errorf '': '' op (Sentinel ErrUserExists))), s1)
        | None \<Rightarrow>
            (let ((id, err), s2) = userSaver_SaveUser a email passHash s1
             in case err of
                  Some e \<Rightarrow>
                    if errors_Is e storage_ErrUserExists
                    then ((0, Some (fmt_Errorf '': '' op e)), s2)
                    else ((0, Some (fmt_Errorf '': '' op e)), s2)
                | None \<Rightarrow> ((id, None), s2)))"

definition IsAdmin ::
  "'s Auth \<Rightarrow> int64 \<Rightarrow> 's \<Rightarrow> (bool \<times> error option) \<times> 's" where
  "IsAdmin a userId s =
    (let op = ''Auth.IsAmin'';
         ((isAdmin, err), s1) = userProvider_IsAdmin a userId s
     in case err of
          Some e \<Rightarrow>
            if errors_Is e storage_ErrAppNotFound
            then ((False, Some (fmt_Errorf '': '' op (Sentinel ErrInvalidAppId))), s1)
            else ((False, Some (fmt_Errorf '': '' op e)), s1)
        | None \<Rightarrow> ((isAdmin, None), s1))"

section \<open>Package authgrpc: the request boundary\<close>

subsection \<open>Status values and transport messages\<close>

text \<open>
  The \<open>codes\<close> constants the server answers with: four in the handlers and
  \<open>Unimplemented\<close> in the generated stubs. \<open>status.Error\<close> builds the value below.
\<close>

datatype Code = InvalidArgument | AlreadyExists | NotFound | Internal | Unimplemented

record Status =
  Status_code :: Code
  Status_message :: string

definition status_Error :: "Code \<Rightarrow> string \<Rightarrow> Status" where
  "status_Error c msg = \<lparr>Status_code = c, Status_message = msg\<rparr>"

text \<open>
  The generated protobuf messages of package \<open>ssov1\<close>. A handler receives a pointer, which
  may be \<open>nil\<close> (\<open>None\<close>); the generated getters return the zero value of the field then.
\<close>

record LoginRequest =
  LoginRequest_Email :: string
  LoginRequest_Password :: string
  LoginRequest_AppId :: int32

record RegisterRequest =
  RegisterRequest_Email :: string
  RegisterRequest_Password :: string

record IsAdminRequest =
  IsAdminRequest_UserId :: int64

record LoginResponse =
  LoginResponse_Token :: string

record RegisterResponse =
  RegisterResponse_UserId :: int64

record IsAdminResponse =
  IsAdminResponse_IsAdmin :: bool

definition LoginRequest_GetEmail :: "LoginRequest option \<Rightarrow> string" where
  "LoginRequest_GetEmail req = (case req of None \<Rightarrow> '''' | Some x \<Rightarrow> LoginRequest_Email x)"

definition LoginRequest_GetPassword :: "LoginRequest option \<Rightarrow> string" where
  "LoginRequest_GetPassword req = (case req of None \<Rightarrow> '''' | Some x \<Rightarrow> LoginRequest_Password x)"

definition LoginRequest_GetAppId :: "LoginRequest option \<Rightarrow> int32" where
  "LoginRequest_GetAppId req = (case req of None \<Rightarrow> 0 | Some x \<Rightarrow> LoginRequest_AppId x)"

definition RegisterRequest_GetEmail :: "RegisterRequest option \<Rightarrow> string" where
  "RegisterRequest_GetEmail req =
    (case req of None \<Rightarrow> '''' | Some x \<Rightarrow> RegisterRequest_Email x)"

definition RegisterRequest_GetPassword :: "RegisterRequest option \<Rightarrow> string" where
  "RegisterRequest_GetPassword req =
    (case req of None \<Rightarrow> '''' | Some x \<Rightarrow> RegisterRequest_Password x)"

definition IsAdminRequest_GetUserId :: "IsAdminRequest option \<Rightarrow> int64" where
  "IsAdminRequest_GetUserId req = (case req of None \<Rightarrow> 0 | Some x \<Rightarrow> IsAdminRequest_UserId x)"

subsection \<open>Validation\<close>

text \<open>
  The three input structs with their \<open>validate\<close> tags. The validator library visits the
  fields in order; on each field it runs the tags from left to right and records the first
  one that fails. \<open>required\<close> fails on the zero value of the field, \<open>gt=0\<close> on a number
  that is not greater than zero, and \<open>email\<close> on a string the library's address pattern
  does not match; that pattern is the parameter \<open>isEmail\<close>.
\<close>

record LoginReq =
  LoginReq_Email :: string
  LoginReq_Password :: string
  LoginReq_AppID :: int32

record RegisterReq =
  RegisterReq_Email :: string
  RegisterReq_Password :: string

record AdminCheckReq =
  AdminCheckReq_UserID :: int64

text \<open>A field error: the struct, the field and the tag that failed.\<close>

datatype FieldError = FieldError string string string

fun first_failed :: "(string \<times> bool) list \<Rightarrow> string option" where
  "first_failed [] = None"
| "first_failed ((tag, ok) # rest) = (if ok then first_failed rest else Some tag)"

definition validate_field :: "string \<Rightarrow> string \<Rightarrow> (string \<times> bool) list \<Rightarrow> FieldError list" where
  "validate_field struct field tags =
    (case first_failed tags of None \<Rightarrow> [] | Some tag \<Rightarrow> [FieldError struct field tag])"

definition LoginReq_errors :: "(string \<Rightarrow> bool) \<Rightarrow> LoginReq \<Rightarrow> FieldError list" where
  "LoginReq_errors isEmail input =
     validate_field ''LoginReq'' ''Email''
       [(''required'', LoginReq_Email input \<noteq> ''''), (''email'', isEmail (LoginReq_Email input))]
   @ validate_field ''LoginReq'' ''Password''
       [(''required'', LoginReq_Password input \<noteq> '''')]
   @ validate_field ''LoginReq'' ''AppID''
       [(''required'', LoginReq_AppID input \<noteq> 0), (''gt'', 0 < sint (LoginReq_AppID input))]"

definition RegisterReq_errors :: "(string \<Rightarrow> bool) \<Rightarrow> RegisterReq \<Rightarrow> FieldError list" where
  "RegisterReq_errors isEmail input =
     validate_field ''RegisterReq'' ''Email''
       [(''required'', RegisterReq_Email input \<noteq> ''''),
        (''email'', isEmail (RegisterReq_Email input))]
   @ validate_field ''RegisterReq'' ''Password''
       [(''required'', RegisterReq_Password input \<noteq> '''')]"

definition AdminCheckReq_errors :: "AdminCheckReq \<Rightarrow> FieldError list" where
  "AdminCheckReq_errors input =
     validate_field ''AdminCheckReq'' ''UserID''
       [(''required'', AdminCheckReq_UserID input \<noteq> 0),
        (''gt'', 0 < sint (AdminCheckReq_UserID input))]"

text \<open>
  \<open>validate.Struct\<close> returns \<open>nil\<close> when no field failed and the list of field errors
  otherwise.
\<close>

definition validate_Struct :: "FieldError list \<Rightarrow> FieldError list option" where
  "validate_Struct errs = (if errs = [] then None else Some errs)"

text \<open>The text of a validation error: one line for each field error.\<close>

fun FieldError_Error :: "FieldError \<Rightarrow> string" where
  "FieldError_Error (FieldError struct field tag) =
     ''Key: '' @ [CHR 0x27] @ struct @ ''.'' @ field @ [CHR 0x27]
     @ '' Error:Field validation for '' @ [CHR 0x27] @ field @ [CHR 0x27]
     @ '' failed on the '' @ [CHR 0x27] @ tag @ [CHR 0x27] @ '' tag''"

fun ValidationErrors_Error :: "FieldError list \<Rightarrow> string" where
  "ValidationErrors_Error [] = ''''"
| "ValidationErrors_Error [fe] = FieldError_Error fe"
| "ValidationErrors_Error (fe # rest) = FieldError_Error fe @ [CHR 0x0A] @ ValidationErrors_Error rest"

subsection \<open>The handlers\<close>

text \<open>
  The interface \<open>Auth\<close> of package \<open>authgrpc\<close>, which the server holds in its field
  \<open>auth\<close>. Its methods act on the outside world like the collaborators of the core do.
\<close>

record 's authgrpc_Auth =
  Auth_Login :: "string \<Rightarrow> string \<Rightarrow> int64 \<Rightarrow> 's \<Rightarrow> (string \<times> error option) \<times> 's"
  Auth_RegisterNewUser :: "string \<Rightarrow> string \<Rightarrow> 's \<Rightarrow> (int64 \<times> error option) \<times> 's"
  Auth_IsAdmin :: "int64 \<Rightarrow> 's \<Rightarrow> (bool \<times> error option) \<times> 's"

text \<open>
  The server struct embeds \<open>ssov1.UnimplementedAuthServer\<close>, an empty struct of the
  generated package, which is not among the sources. The generator gives it one method for
  each call of the service, and each answers \<open>codes.Unimplemented\<close> with the text
  \<open>method ... not implemented\<close> and touches nothing. The one the server does not replace
  is \<open>IsAdmin\<close>.
\<close>

datatype UnimplementedAuthServer = Empty_UnimplementedAuthServer

definition UnimplementedAuthServer_IsAdmin ::
  "UnimplementedAuthServer \<Rightarrow> IsAdminRequest option \<Rightarrow> 's
     \<Rightarrow> (IsAdminResponse option \<times> Status option) \<times> 's" where
  "UnimplementedAuthServer_IsAdmin u req s =
     ((None, Some (status_Error Unimplemented ''method IsAdmin not implemented'')), s)"

record 's serverAPI =
  UnimplementedAuthServer :: UnimplementedAuthServer
  auth :: "'s authgrpc_Auth"

text \<open>
  A handler returns Go's pair of a response pointer and an error, here a status. The
  conversion \<open>int64(req.GetAppId())\<close> extends the sign (\<open>scast\<close>).
\<close>

definition serverAPI_Login ::
  "(string \<Rightarrow> bool) \<Rightarrow> 's serverAPI \<Rightarrow> LoginRequest option \<Rightarrow> 's
     \<Rightarrow> (LoginResponse option \<times> Status option) \<times> 's" where
  "serverAPI_Login isEmail srv req s =
    (let input = \<lparr>LoginReq_Email = LoginRequest_GetEmail req,
                  LoginReq_Password = LoginRequest_GetPassword req,
                  LoginReq_AppID = LoginRequest_GetAppId req\<rparr>
     in case validate_Struct (LoginReq_errors isEmail input) of
          Some verr \<Rightarrow>
            ((None, Some (status_Error InvalidArgument (ValidationErrors_Error verr))), s)
        | None \<Rightarrow>
            (let ((token, err), s1) =
                   Auth_Login (auth srv) (LoginRequest_GetEmail req) (LoginRequest_GetPassword req)
                     (scast (LoginRequest_GetAppId req)) s
             in case err of
                  Some e \<Rightarrow>
                    if errors_Is e ErrInvalidCredentials
                    then ((None, Some (status_Error InvalidArgument ''internal error'')), s1)
                    else ((None, Some (status_Error InvalidArgument ''internal error'')), s1)
                | None \<Rightarrow> ((Some \<lparr>LoginResponse_Token = token\<rparr>, None), s1)))"

definition serverAPI_Register ::
  "(string \<Rightarrow> bool) \<Rightarrow> 's serverAPI \<Rightarrow> RegisterRequest option \<Rightarrow> 's
     \<Rightarrow> (RegisterResponse option \<times> Status option) \<times> 's" where
  "serverAPI_Register isEmail srv req s =
    (let input = \<lparr>RegisterReq_Email = RegisterRequest_GetEmail req,
                  RegisterReq_Password = RegisterRequest_GetPassword req\<rparr>
     in case validate_Struct (RegisterReq_errors isEmail input) of
          Some verr \<Rightarrow>
            ((None, Some (status_Error InvalidArgument (ValidationErrors_Error verr))), s)
        | None \<Rightarrow>
            (let ((userID, err), s1) =
                   Auth_RegisterNewUser (auth srv) (RegisterRequest_GetEmail req)
                     (RegisterRequest_GetPassword req) s
             in case err of
                  Some e \<Rightarrow>
                    if errors_Is e ErrUserExists
                    then ((None, Some (status_Error AlreadyExists ''user already exists'')), s1)
                    else ((None, Some (status_Error Internal ''internal error'')), s1)
                | None \<Rightarrow> ((Some \<lparr>RegisterResponse_UserId = userID\<rparr>, None), s1)))"

text \<open>
  The third method is declared as \<open>isAdmin\<close>, in lower case. It is not exported, nothing
  in the sources calls it, and it is not the method \<open>IsAdmin\<close> of the service.
\<close>

definition serverAPI_isAdmin ::
  "'s serverAPI \<Rightarrow> IsAdminRequest option \<Rightarrow> 's
     \<Rightarrow> (IsAdminResponse option \<times> Status option) \<times> 's" where
  "serverAPI_isAdmin srv req s =
    (let input = \<lparr>AdminCheckReq_UserID = IsAdminRequest_GetUserId req\<rparr>
     in case validate_Struct (AdminCheckReq_errors input) of
          Some verr \<Rightarrow>
            ((None, Some (status_Error InvalidArgument (ValidationErrors_Error verr))), s)
        | None \<Rightarrow>
            (let ((isAdmin, err), s1) = Auth_IsAdmin (auth srv) (IsAdminRequest_GetUserId req) s
             in case err of
                  Some e \<Rightarrow>
                    if errors_Is e storage_ErrUserNotFound
                    then ((None, Some (status_Error NotFound ''user not found'')), s1)
                    else ((None, Some (status_Error Internal ''internal error'')), s1)
                | None \<Rightarrow> ((Some \<lparr>IsAdminResponse_IsAdmin = isAdmin\<rparr>, None), s1)))"

text \<open>
  What a caller of the admin check reaches. The transport calls the exported method
  \<open>IsAdmin\<close> of the registered server. \<open>serverAPI\<close> declares \<open>Login\<close>, \<open>Register\<close>
  and \<open>isAdmin\<close>, so its \<open>IsAdmin\<close> is the one promoted from the embedded struct.
\<close>

definition AuthServer_IsAdmin ::
  "'s serverAPI \<Rightarrow> IsAdminRequest option \<Rightarrow> 's
     \<Rightarrow> (IsAdminResponse option \<times> Status option) \<times> 's" where
  "AuthServer_IsAdmin srv req s =
     UnimplementedAuthServer_IsAdmin (UnimplementedAuthServer srv) req s"

text \<open>
  The status class a caller observes: the code of the returned status, \<open>None\<close> when the
  handler returned a response.
\<close>

definition status_class :: "('r option \<times> Status option) \<times> 's \<Rightarrow> Code option" where
  "status_class out = map_option Status_code (snd (fst out))"

subsection \<open>The server over the core\<close>

text \<open>
  \<open>RegisterServerAPI\<close> stores the service it is given in the field \<open>auth\<close>. The service
  that satisfies the interface is the core: its three methods, over chosen collaborators.
\<close>

definition authService :: "'s lib \<Rightarrow> 's Auth \<Rightarrow> 's authgrpc_Auth" where
  "authService L a =
    \<lparr>Auth_Login = Login L a,
     Auth_RegisterNewUser = RegisterNewUser L a,
     Auth_IsAdmin = IsAdmin a\<rparr>"

definition RegisterServerAPI :: "'s authgrpc_Auth \<Rightarrow> 's serverAPI" where
  "RegisterServerAPI service =
     \<lparr>UnimplementedAuthServer = Empty_UnimplementedAuthServer, auth = service\<rparr>"

section \<open>A concrete world for evaluation\<close>

text \<open>
  An in-memory stand-in for the collaborators, on which the operations are evaluated at
  concrete inputs. The store holds one user, \<open>alice\<close>, and one application, number 1; the
  state of the world is the number of calls the store has answered. A missing row is
  reported the way a store built on package \<open>storage\<close> does it: the package's value,
  wrapped under the name of the store operation.
\<close>

definition alice :: User where
  "alice = \<lparr>User_ID = 1, User_Email = ''alice@example.com'', User_PassHash = ''bcrypt:secret''\<rparr>"

definition app1 :: App where
  "app1 = \<lparr>App_ID = 1, App_Name = ''shop'', App_Secret = ''key''\<rparr>"

definition fake_Auth :: "nat Auth" where
  "fake_Auth =
    \<lparr>userSaver_SaveUser = (\<lambda>email passHash n.
        if email = User_Email alice
        then ((0, Some (WrapError ''storage.SaveUser: '' (Sentinel storage_ErrUserExists))), Suc n)
        else ((2, None), Suc n)),
     userProvider_User = (\<lambda>email n.
        if email = User_Email alice then ((alice, None), Suc n)
        else ((\<lparr>User_ID = 0, User_Email = '''', User_PassHash = ''''\<rparr>,
               Some (WrapError ''storage.User: '' (Sentinel storage_ErrUserNotFound))), Suc n)),
     userProvider_IsAdmin = (\<lambda>userId n.
        if userId = User_ID alice then ((False, None), Suc n)
        else ((False, Some (WrapError ''storage.IsAdmin: '' (Sentinel storage_ErrUserNotFound))),
              Suc n)),
     appProvider_App = (\<lambda>appId n.
        if appId = App_ID app1 then ((app1, None), Suc n)
        else ((\<lparr>App_ID = 0, App_Name = '''', App_Secret = ''''\<rparr>,
               Some (WrapError ''storage.App: '' (Sentinel storage_ErrAppNotFound))), Suc n)),
     tokenTTL = 3600000000000\<rparr>"


text \<open>
  The stand-in hasher marks the password instead of hashing it, and like bcrypt refuses a
  password of more than 72 bytes. The stand-in token names the user and the application.
\<close>

definition fake_lib :: "nat lib" where
  "fake_lib =
    \<lparr>bcrypt_CompareHashAndPassword = (\<lambda>hashedPassword password.
        if hashedPassword = ''bcrypt:'' @ password then None
        else Some (Foreign ''crypto/bcrypt: hashedPassword is not the hash of the given password'')),
     bcrypt_GenerateFromPassword = (\<lambda>password cost n.
        if 72 < length password
        then (('''', Some (Foreign ''bcrypt: password length exceeds 72 bytes'')), n)
        else ((''bcrypt:'' @ password, None), n)),
     jwt_NewToken = (\<lambda>user app ttl n. ((User_Email user @ ''@'' @ App_Name app, None), n))\<rparr>"

definition fake_isEmail :: "string \<Rightarrow> bool" where
  "fake_isEmail x = (CHR ''@'' \<in> set x)"

definition fake_server :: "nat serverAPI" where
  "fake_server = RegisterServerAPI (authService fake_lib fake_Auth)"

text \<open>A service that only counts how often it is called.\<close>

definition counting_Auth :: "nat authgrpc_Auth" where
  "counting_Auth =
    \<lparr>Auth_Login = (\<lambda>email password appID n. ((''token'', None), Suc n)),
     Auth_RegisterNewUser = (\<lambda>email password n. ((1, None), Suc n)),
     Auth_IsAdmin = (\<lambda>userID n. ((False, None), Suc n))\<rparr>"

section \<open>Properties\<close>

subsection \<open>Error chains and validation\<close>

text \<open>
  Wrapping keeps the kind of an error, and an error has at most one kind: a chain ends in
  one value.
\<close>

lemma errors_Is_fmt_Errorf: "errors_Is (fmt_Errorf sep op err) target = errors_Is err target"
  by (simp add: fmt_Errorf_def)

lemma errors_Is_unique: "errors_Is err t \<Longrightarrow> errors_Is err t' \<Longrightarrow> t = t'"
  by (induction err) auto

text \<open>
  What the tags accept. On a number \<open>required\<close> adds nothing to \<open>gt=0\<close>.
\<close>

lemma validate_field_Nil: "validate_field struct field tags = [] \<longleftrightarrow> first_failed tags = None"
  by (simp add: validate_field_def split: option.splits)

lemma LoginReq_valid_iff:
  "validate_Struct (LoginReq_errors isEmail input) = None \<longleftrightarrow>
     LoginReq_Email input \<noteq> '''' \<and> isEmail (LoginReq_Email input) \<and>
     LoginReq_Password input \<noteq> '''' \<and> 0 < sint (LoginReq_AppID input)"
  by (auto simp: validate_Struct_def LoginReq_errors_def validate_field_Nil)

lemma RegisterReq_valid_iff:
  "validate_Struct (RegisterReq_errors isEmail input) = None \<longleftrightarrow>
     RegisterReq_Email input \<noteq> '''' \<and> isEmail (RegisterReq_Email input) \<and>
     RegisterReq_Password input \<noteq> ''''"
  by (auto simp: validate_Struct_def RegisterReq_errors_def validate_field_Nil)

lemma AdminCheckReq_valid_iff:
  "validate_Struct (AdminCheckReq_errors input) = None \<longleftrightarrow> 0 < sint (AdminCheckReq_UserID input)"
  by (auto simp: validate_Struct_def AdminCheckReq_errors_def validate_field_Nil)

lemma validate_Struct_Some: "validate_Struct errs \<noteq> None \<Longrightarrow> validate_Struct errs = Some errs"
  by (simp add: validate_Struct_def split: if_splits)

subsection \<open>The branches of the core\<close>

lemma Login_user_error:
  assumes "userProvider_User a email s = ((user, Some e), s1)"
  shows "Login L a email password appId s =
           (('''', Some (fmt_Errorf '':'' ''auth.Login''
                          (if errors_Is e ErrInvalidCredentials then Sentinel ErrInvalidCredentials else e))), s1)"
  using assms by (simp add: Login_def)

lemma Login_mismatch:
  assumes "userProvider_User a email s = ((user, None), s1)"
      and "bcrypt_CompareHashAndPassword L (User_PassHash user) password = Some e"
  shows "Login L a email password appId s =
           (('''', Some (fmt_Errorf '':'' ''auth.Login'' (Sentinel ErrInvalidCredentials))), s1)"
  using assms by (simp add: Login_def)

lemma RegisterNewUser_hasher_error:
  assumes "bcrypt_GenerateFromPassword L password bcrypt_DefaultCost s = ((passHash, Some e), s1)"
  shows "RegisterNewUser L a email password s =
           ((0, Some (fmt_Errorf '': '' ''auth.RegisterNewUser'' (Sentinel ErrUserExists))), s1)"
  using assms by (simp add: RegisterNewUser_def)

lemma RegisterNewUser_saver_error:
  assumes "bcrypt_GenerateFromPassword L password bcrypt_DefaultCost s = ((passHash, None), s1)"
      and "userSaver_SaveUser a email passHash s1 = ((uid, Some e), s2)"
  shows "RegisterNewUser L a email password s =
           ((0, Some (fmt_Errorf '': '' ''auth.RegisterNewUser'' e)), s2)"
  using assms by (simp add: RegisterNewUser_def)

lemma IsAdmin_provider_error:
  assumes "userProvider_IsAdmin a userId s = ((b, Some e), s1)"
  shows "IsAdmin a userId s =
           ((False, Some (fmt_Errorf '': '' ''Auth.IsAmin''
                           (if errors_Is e storage_ErrAppNotFound then Sentinel ErrInvalidAppId else e))), s1)"
  using assms by (simp add: IsAdmin_def)

lemma Login_error_token:
  "snd (fst (Login L a email password appId s)) \<noteq> None
     \<Longrightarrow> fst (fst (Login L a email password appId s)) = ''''"
  by (auto simp: Login_def Let_def split: prod.splits option.splits if_splits)

lemma RegisterNewUser_error_id:
  "snd (fst (RegisterNewUser L a email password s)) \<noteq> None
     \<Longrightarrow> fst (fst (RegisterNewUser L a email password s)) = 0"
  by (auto simp: RegisterNewUser_def Let_def split: prod.splits option.splits if_splits)

lemma IsAdmin_error_flag:
  "snd (fst (IsAdmin a userId s)) \<noteq> None \<Longrightarrow> fst (fst (IsAdmin a userId s)) = False"
  by (auto simp: IsAdmin_def Let_def split: prod.splits option.splits if_splits)

subsection \<open>The branches of the handlers\<close>

text \<open>
  The \<open>Login\<close> handler answers every failure of the core, whatever its kind, with
  \<open>codes.InvalidArgument\<close> and the text \<open>internal error\<close>.
\<close>

lemma serverAPI_Login_class:
  "status_class (serverAPI_Login isEmail srv req s) = None \<or> status_class (serverAPI_Login isEmail srv req s) = Some InvalidArgument"
  by (auto simp: serverAPI_Login_def status_class_def status_Error_def Let_def split: prod.splits option.splits if_splits)

lemma serverAPI_Login_core_error:
  assumes "Auth_Login (auth srv) (LoginRequest_GetEmail req) (LoginRequest_GetPassword req)
                     (scast (LoginRequest_GetAppId req)) s = ((token, Some e), s1)"
  shows "status_class (serverAPI_Login isEmail srv req s) = Some InvalidArgument"
  using assms
  by (auto simp: serverAPI_Login_def status_class_def status_Error_def Let_def split: prod.splits option.splits if_splits)

lemma serverAPI_Login_core_error_response:
  assumes valid: "validate_Struct (LoginReq_errors isEmail
                    \<lparr>LoginReq_Email = LoginRequest_GetEmail req,
                     LoginReq_Password = LoginRequest_GetPassword req,
                     LoginReq_AppID = LoginRequest_GetAppId req\<rparr>) = None"
      and failed: "Auth_Login (auth srv) (LoginRequest_GetEmail req) (LoginRequest_GetPassword req)
                     (scast (LoginRequest_GetAppId req)) s = ((token, Some e), s1)"
  shows "serverAPI_Login isEmail srv req s
           = ((None, Some (status_Error InvalidArgument ''internal error'')), s1)"
  using valid failed by (simp add: serverAPI_Login_def)

lemma serverAPI_Register_saver_exists:
  assumes valid: "validate_Struct (RegisterReq_errors isEmail
                    \<lparr>RegisterReq_Email = RegisterRequest_GetEmail req,
                     RegisterReq_Password = RegisterRequest_GetPassword req\<rparr>) = None"
      and hash: "bcrypt_GenerateFromPassword L (RegisterRequest_GetPassword req) bcrypt_DefaultCost s
                   = ((passHash, None), s1)"
      and save: "userSaver_SaveUser a (RegisterRequest_GetEmail req) passHash s1 = ((uid, Some e), s2)"
      and dup: "errors_Is e storage_ErrUserExists"
  shows "serverAPI_Register isEmail (RegisterServerAPI (authService L a)) req s =
           ((None, Some (status_Error Internal ''internal error'')), s2)"
proof -
  have "\<not> errors_Is e ErrUserExists"
    using dup errors_Is_unique by fastforce
  then show ?thesis
    using valid RegisterNewUser_saver_error [OF hash save]
    by (simp add: serverAPI_Register_def RegisterServerAPI_def authService_def errors_Is_fmt_Errorf)
qed

text \<open>
  The admin check. The registered server answers it with \<open>Unimplemented\<close> whatever the
  request, the service and the world are. The unexported method has a \<open>NotFound\<close> branch
  for a service error of kind \<open>storage.ErrUserNotFound\<close>; over the core, a provider error
  of kind \<open>storage.ErrAppNotFound\<close> reaches it as \<open>ErrInvalidAppId\<close> and ends in
  \<open>Internal\<close>.
\<close>

lemma AuthServer_IsAdmin_Unimplemented:
  "AuthServer_IsAdmin srv req s
     = ((None, Some (status_Error Unimplemented ''method IsAdmin not implemented'')), s)"
  by (simp add: AuthServer_IsAdmin_def UnimplementedAuthServer_IsAdmin_def)

lemma serverAPI_isAdmin_not_found_branch:
  assumes valid: "validate_Struct (AdminCheckReq_errors
                    \<lparr>AdminCheckReq_UserID = IsAdminRequest_GetUserId req\<rparr>) = None"
      and failed: "Auth_IsAdmin (auth srv) (IsAdminRequest_GetUserId req) s = ((b, Some e), s1)"
      and notfound: "errors_Is e storage_ErrUserNotFound"
  shows "serverAPI_isAdmin srv req s
           = ((None, Some (status_Error NotFound ''user not found'')), s1)"
  using valid failed notfound by (simp add: serverAPI_isAdmin_def)

lemma serverAPI_isAdmin_app_not_found_Internal:
  assumes valid: "validate_Struct (AdminCheckReq_errors
                    \<lparr>AdminCheckReq_UserID = IsAdminRequest_GetUserId req\<rparr>) = None"
      and report: "userProvider_IsAdmin a (IsAdminRequest_GetUserId req) s = ((b, Some e), s1)"
      and notfound: "errors_Is e storage_ErrAppNotFound"
  shows "serverAPI_isAdmin (RegisterServerAPI (authService L a)) req s
           = ((None, Some (status_Error Internal ''internal error'')), s1)"
  using valid notfound IsAdmin_provider_error [OF report]
  by (simp add: serverAPI_isAdmin_def RegisterServerAPI_def authService_def errors_Is_fmt_Errorf)

subsection \<open>Registration\<close>

text \<open>
  C1. Stated in the specification: whenever the user saver reports that the email is already registered, the
  \<open>Register\<close> handler answers with the status class \<open>AlreadyExists\<close>. The code does
  not: the core wraps the saver's \<open>storage.ErrUserExists\<close>, the handler looks for
  \<open>auth.ErrUserExists\<close>, and the answer is \<open>Internal\<close> (lemma
  \<open>serverAPI_Register_saver_exists\<close>). Evaluated for the registered address of
  \<open>alice\<close>:
\<close>

theorem Register_existing_email_Internal:
  "snd (fst (userSaver_SaveUser fake_Auth ''alice@example.com'' ''bcrypt:secret'' 0))
     = Some (WrapError ''storage.SaveUser: '' (Sentinel storage_ErrUserExists))
   \<and> errors_Is (WrapError ''storage.SaveUser: '' (Sentinel storage_ErrUserExists))
        storage_ErrUserExists
   \<and> serverAPI_Register fake_isEmail fake_server
       (Some \<lparr>RegisterRequest_Email = ''alice@example.com'', RegisterRequest_Password = ''secret''\<rparr>) 0
     = ((None, Some \<lparr>Status_code = Internal, Status_message = ''internal error''\<rparr>), 1)"
proof -
  let ?req = "Some \<lparr>RegisterRequest_Email = ''alice@example.com'',
                     RegisterRequest_Password = ''secret''\<rparr>"
  have email: "RegisterRequest_GetEmail ?req = ''alice@example.com''"
    by (simp add: RegisterRequest_GetEmail_def)
  have password: "RegisterRequest_GetPassword ?req = ''secret''"
    by (simp add: RegisterRequest_GetPassword_def)
  have valid: "validate_Struct (RegisterReq_errors fake_isEmail
                 \<lparr>RegisterReq_Email = RegisterRequest_GetEmail ?req,
                  RegisterReq_Password = RegisterRequest_GetPassword ?req\<rparr>) = None"
    by (simp add: RegisterReq_valid_iff email password fake_isEmail_def)
  have hash: "bcrypt_GenerateFromPassword fake_lib (RegisterRequest_GetPassword ?req)
                bcrypt_DefaultCost 0 = ((''bcrypt:secret'', None), 0)"
    by (simp add: password fake_lib_def)
  have save: "userSaver_SaveUser fake_Auth (RegisterRequest_GetEmail ?req) ''bcrypt:secret'' 0
                = ((0, Some (WrapError ''storage.SaveUser: '' (Sentinel storage_ErrUserExists))), 1)"
    by (simp add: email fake_Auth_def alice_def)
  have dup: "errors_Is (WrapError ''storage.SaveUser: '' (Sentinel storage_ErrUserExists))
               storage_ErrUserExists"
    by simp
  show ?thesis
    using serverAPI_Register_saver_exists [OF valid hash save dup] save
    by (simp add: fake_server_def status_Error_def email)
qed

text \<open>
  C3. Stated in the specification: when the password hasher fails, \<open>RegisterNewUser\<close> returns an error of
  a kind distinct from \<open>UserAlreadyExists\<close>. The code returns \<open>ErrUserExists\<close> itself
  in that branch (lemma \<open>RegisterNewUser_hasher_error\<close>). Evaluated for a new address
  and a password of 73 bytes, which the hasher refuses:
\<close>

theorem RegisterNewUser_hasher_failure_ErrUserExists:
  "snd (fst (bcrypt_GenerateFromPassword fake_lib (replicate 73 (CHR ''a'')) bcrypt_DefaultCost 0))
     = Some (Foreign ''bcrypt: password length exceeds 72 bytes'')
   \<and> RegisterNewUser fake_lib fake_Auth ''bob@example.com'' (replicate 73 (CHR ''a'')) 0
     = ((0, Some (WrapError ''auth.RegisterNewUser: '' (Sentinel ErrUserExists))), 0)
   \<and> errors_Is (WrapError ''auth.RegisterNewUser: '' (Sentinel ErrUserExists)) ErrUserExists"
  by (simp add: RegisterNewUser_def fake_lib_def fmt_Errorf_def)

subsection \<open>Login\<close>

text \<open>
  C2. Stated in the specification: when the user provider reports that no user has the email, \<open>Login\<close>
  returns \<open>InvalidCredentials\<close> and never the provider's own error. The code turns a
  provider error into \<open>ErrInvalidCredentials\<close> only if that error already is
  \<open>ErrInvalidCredentials\<close>; the provider's \<open>storage.ErrUserNotFound\<close> is returned
  wrapped (lemma \<open>Login_user_error\<close>). Evaluated for an unregistered address:
\<close>

theorem Login_unregistered_email_raw_error:
  "snd (fst (userProvider_User fake_Auth ''mallory@example.com'' 0))
     = Some (WrapError ''storage.User: '' (Sentinel storage_ErrUserNotFound))
   \<and> errors_Is (WrapError ''storage.User: '' (Sentinel storage_ErrUserNotFound))
        storage_ErrUserNotFound
   \<and> Login fake_lib fake_Auth ''mallory@example.com'' ''guess'' 1 0
     = (('''', Some (WrapError ''auth.Login:''
                      (WrapError ''storage.User: '' (Sentinel storage_ErrUserNotFound)))), 1)
   \<and> \<not> errors_Is (WrapError ''auth.Login:''
                     (WrapError ''storage.User: '' (Sentinel storage_ErrUserNotFound)))
          ErrInvalidCredentials"
  by (simp add: Login_def fake_Auth_def alice_def fmt_Errorf_def)

text \<open>
  C4. Stated in the specification: a \<open>Login\<close> request that passes validation and whose core call fails
  with an error other than \<open>InvalidCredentials\<close> is answered with the status class
  \<open>Internal\<close>. The handler answers with \<open>InvalidArgument\<close> (lemma
  \<open>serverAPI_Login_core_error\<close>); only the text is \<open>internal error\<close>. Evaluated for
  the right password of \<open>alice\<close> and an application the store does not know:
\<close>

theorem Login_other_failure_InvalidArgument:
  "Login fake_lib fake_Auth ''alice@example.com'' ''secret'' 9 0
     = (('''', Some (WrapError ''auth.Login:''
                      (WrapError ''storage.App: '' (Sentinel storage_ErrAppNotFound)))), 2)
   \<and> \<not> errors_Is (WrapError ''auth.Login:''
                     (WrapError ''storage.App: '' (Sentinel storage_ErrAppNotFound)))
          ErrInvalidCredentials
   \<and> serverAPI_Login fake_isEmail fake_server
       (Some \<lparr>LoginRequest_Email = ''alice@example.com'', LoginRequest_Password = ''secret'',
              LoginRequest_AppId = 9\<rparr>) 0
     = ((None, Some \<lparr>Status_code = InvalidArgument, Status_message = ''internal error''\<rparr>), 2)"
proof -
  let ?req = "Some \<lparr>LoginRequest_Email = ''alice@example.com'', LoginRequest_Password = ''secret'',
                     LoginRequest_AppId = 9\<rparr>"
  have email: "LoginRequest_GetEmail ?req = ''alice@example.com''"
    by (simp add: LoginRequest_GetEmail_def)
  have password: "LoginRequest_GetPassword ?req = ''secret''"
    by (simp add: LoginRequest_GetPassword_def)
  have appId: "LoginRequest_GetAppId ?req = 9"
    by (simp add: LoginRequest_GetAppId_def)
  have valid: "validate_Struct (LoginReq_errors fake_isEmail
                 \<lparr>LoginReq_Email = ''alice@example.com'', LoginReq_Password = ''secret'',
                  LoginReq_AppID = 9\<rparr>) = None"
    by (simp add: LoginReq_valid_iff fake_isEmail_def)
  have core: "Login fake_lib fake_Auth ''alice@example.com'' ''secret'' 9 0
     = (('''', Some (WrapError ''auth.Login:''
                      (WrapError ''storage.App: '' (Sentinel storage_ErrAppNotFound)))), 2)"
    by (simp add: Login_def fake_lib_def fake_Auth_def alice_def app1_def fmt_Errorf_def)
  have "serverAPI_Login fake_isEmail fake_server ?req 0
     = ((None, Some \<lparr>Status_code = InvalidArgument, Status_message = ''internal error''\<rparr>), 2)"
    by (simp add: serverAPI_Login_def email password appId valid fake_server_def
        RegisterServerAPI_def authService_def core status_Error_def)
  with core show ?thesis by simp
qed

text \<open>
  C5. Take two \<open>Login\<close> calls on the same server: in the first the provider finds the
  user and the password does not match the stored hash, in the second the provider reports
  that no user has the email. Both answers carry the same status class,
  \<open>InvalidArgument\<close>, whether or not the requests pass validation, and the core's result
  for the first call is the empty token with an error of kind \<open>ErrInvalidCredentials\<close>.
  When both requests pass validation the two statuses are equal in their text as well
  (lemma \<open>serverAPI_Login_core_error_response\<close>).
\<close>

theorem Login_failures_same_class:
  assumes found: "userProvider_User a (LoginRequest_GetEmail r1) s1 = ((user, None), s1')"
      and wrong: "bcrypt_CompareHashAndPassword L (User_PassHash user) (LoginRequest_GetPassword r1)
                    = Some e1"
      and unknown: "userProvider_User a (LoginRequest_GetEmail r2) s2 = ((user2, Some e2), s2')"
      and notfound: "errors_Is e2 storage_ErrUserNotFound"
  shows "status_class (serverAPI_Login isEmail (RegisterServerAPI (authService L a)) r1 s1)
           = status_class (serverAPI_Login isEmail (RegisterServerAPI (authService L a)) r2 s2)
         \<and> status_class (serverAPI_Login isEmail (RegisterServerAPI (authService L a)) r1 s1)
           = Some InvalidArgument
         \<and> Login L a (LoginRequest_GetEmail r1) (LoginRequest_GetPassword r1)
             (scast (LoginRequest_GetAppId r1)) s1
           = (('''', Some (fmt_Errorf '':'' ''auth.Login'' (Sentinel ErrInvalidCredentials))), s1')
         \<and> errors_Is (fmt_Errorf '':'' ''auth.Login'' (Sentinel ErrInvalidCredentials))
             ErrInvalidCredentials"
proof -
  let ?srv = "RegisterServerAPI (authService L a)"
  have svc: "Auth_Login (auth ?srv) = Login L a"
    by (simp add: RegisterServerAPI_def authService_def)
  have core1: "Login L a (LoginRequest_GetEmail r1) (LoginRequest_GetPassword r1)
                 (scast (LoginRequest_GetAppId r1)) s1
               = (('''', Some (fmt_Errorf '':'' ''auth.Login'' (Sentinel ErrInvalidCredentials))), s1')"
    by (rule Login_mismatch [OF found wrong])
  have class1: "status_class (serverAPI_Login isEmail ?srv r1 s1) = Some InvalidArgument"
  proof (cases "validate_Struct (LoginReq_errors isEmail
                  \<lparr>LoginReq_Email = LoginRequest_GetEmail r1,
                   LoginReq_Password = LoginRequest_GetPassword r1,
                   LoginReq_AppID = LoginRequest_GetAppId r1\<rparr>)")
    case None
    then show ?thesis
      by (simp add: serverAPI_Login_def svc core1 status_class_def status_Error_def)
  next
    case (Some verr)
    then show ?thesis
      by (simp add: serverAPI_Login_def status_class_def status_Error_def)
  qed
  have class2: "status_class (serverAPI_Login isEmail ?srv r2 s2) = Some InvalidArgument"
  proof (cases "validate_Struct (LoginReq_errors isEmail
                  \<lparr>LoginReq_Email = LoginRequest_GetEmail r2,
                   LoginReq_Password = LoginRequest_GetPassword r2,
                   LoginReq_AppID = LoginRequest_GetAppId r2\<rparr>)")
    case None
    then show ?thesis
      by (simp add: serverAPI_Login_def svc Login_user_error [OF unknown]
          status_class_def status_Error_def)
  next
    case (Some verr)
    then show ?thesis
      by (simp add: serverAPI_Login_def status_class_def status_Error_def)
  qed
  show ?thesis
    using class1 class2 core1 by (simp add: errors_Is_fmt_Errorf)
qed

theorem Login_failures_same_class_witness:
  "status_class (serverAPI_Login fake_isEmail fake_server
      (Some \<lparr>LoginRequest_Email = ''alice@example.com'', LoginRequest_Password = ''guess'',
             LoginRequest_AppId = 1\<rparr>) 0)
   = status_class (serverAPI_Login fake_isEmail fake_server
      (Some \<lparr>LoginRequest_Email = ''mallory@example.com'', LoginRequest_Password = ''guess'',
             LoginRequest_AppId = 1\<rparr>) 5)
   \<and> status_class (serverAPI_Login fake_isEmail fake_server
      (Some \<lparr>LoginRequest_Email = ''alice@example.com'', LoginRequest_Password = ''guess'',
             LoginRequest_AppId = 1\<rparr>) 0) = Some InvalidArgument
   \<and> Login fake_lib fake_Auth ''alice@example.com'' ''guess'' 1 0
     = (('''', Some (WrapError ''auth.Login:'' (Sentinel ErrInvalidCredentials))), 1)"
proof -
  let ?r1 = "Some \<lparr>LoginRequest_Email = ''alice@example.com'', LoginRequest_Password = ''guess'',
                    LoginRequest_AppId = 1\<rparr>"
  let ?r2 = "Some \<lparr>LoginRequest_Email = ''mallory@example.com'', LoginRequest_Password = ''guess'',
                    LoginRequest_AppId = 1\<rparr>"
  have found: "userProvider_User fake_Auth (LoginRequest_GetEmail ?r1) 0 = ((alice, None), 1)"
    by (simp add: fake_Auth_def alice_def LoginRequest_GetEmail_def)
  have wrong: "bcrypt_CompareHashAndPassword fake_lib (User_PassHash alice)
                 (LoginRequest_GetPassword ?r1)
               = Some (Foreign ''crypto/bcrypt: hashedPassword is not the hash of the given password'')"
    by (simp add: fake_lib_def alice_def LoginRequest_GetPassword_def)
  have unknown: "userProvider_User fake_Auth (LoginRequest_GetEmail ?r2) 5
                 = ((\<lparr>User_ID = 0, User_Email = '''', User_PassHash = ''''\<rparr>,
                     Some (WrapError ''storage.User: '' (Sentinel storage_ErrUserNotFound))), 6)"
    by (simp add: fake_Auth_def alice_def LoginRequest_GetEmail_def)
  have notfound: "errors_Is (WrapError ''storage.User: '' (Sentinel storage_ErrUserNotFound))
                    storage_ErrUserNotFound"
    by simp
  show ?thesis
    using Login_failures_same_class [OF found wrong unknown notfound, of fake_isEmail]
    by (auto simp: fake_server_def fmt_Errorf_def LoginRequest_GetEmail_def
        LoginRequest_GetPassword_def LoginRequest_GetAppId_def)
qed

text \<open>
  C8. When the provider finds the user and the supplied password does not match the stored
  hash, \<open>Login\<close> returns the empty token and an error of kind
  \<open>ErrInvalidCredentials\<close>; the application provider and the token issuer are not
  reached, so the world is as the user lookup left it.
\<close>

theorem Login_wrong_password_InvalidCredentials:
  assumes found: "userProvider_User a email s = ((user, None), s1)"
      and wrong: "bcrypt_CompareHashAndPassword L (User_PassHash user) password = Some e"
  shows "Login L a email password appId s
           = (('''', Some (fmt_Errorf '':'' ''auth.Login'' (Sentinel ErrInvalidCredentials))), s1)
         \<and> errors_Is (fmt_Errorf '':'' ''auth.Login'' (Sentinel ErrInvalidCredentials))
             ErrInvalidCredentials"
  using Login_mismatch [OF found wrong] by (simp add: errors_Is_fmt_Errorf)

theorem Login_wrong_password_InvalidCredentials_witness:
  "Login fake_lib fake_Auth ''alice@example.com'' ''guess'' 1 0
     = (('''', Some (WrapError ''auth.Login:'' (Sentinel ErrInvalidCredentials))), 1)"
proof -
  have found: "userProvider_User fake_Auth ''alice@example.com'' 0 = ((alice, None), 1)"
    by (simp add: fake_Auth_def alice_def)
  have wrong: "bcrypt_CompareHashAndPassword fake_lib (User_PassHash alice) ''guess''
               = Some (Foreign ''crypto/bcrypt: hashedPassword is not the hash of the given password'')"
    by (simp add: fake_lib_def alice_def)
  show ?thesis
    using Login_wrong_password_InvalidCredentials [OF found wrong, of 1]
    by (simp add: fmt_Errorf_def)
qed

text \<open>
  C9. A \<open>Login\<close> request with an empty password, an empty email, an email the address
  pattern rejects, or an application number that is not positive is answered with
  \<open>InvalidArgument\<close> and the text of the validation error. The answer is the same for
  every service behind the handler and the world is unchanged: the service is not called.
  In the evaluation below the service counts its calls, and the count stays 0.
\<close>

theorem Login_invalid_request_rejected:
  assumes "LoginRequest_GetPassword req = ''''
           \<or> LoginRequest_GetEmail req = ''''
           \<or> \<not> isEmail (LoginRequest_GetEmail req)
           \<or> sint (LoginRequest_GetAppId req) \<le> 0"
  shows "serverAPI_Login isEmail srv req s
           = ((None, Some (status_Error InvalidArgument
                 (ValidationErrors_Error (LoginReq_errors isEmail
                    \<lparr>LoginReq_Email = LoginRequest_GetEmail req,
                     LoginReq_Password = LoginRequest_GetPassword req,
                     LoginReq_AppID = LoginRequest_GetAppId req\<rparr>)))), s)
         \<and> status_class (serverAPI_Login isEmail srv req s) = Some InvalidArgument"
proof -
  let ?input = "\<lparr>LoginReq_Email = LoginRequest_GetEmail req,
                  LoginReq_Password = LoginRequest_GetPassword req,
                  LoginReq_AppID = LoginRequest_GetAppId req\<rparr>"
  from assms have "validate_Struct (LoginReq_errors isEmail ?input) \<noteq> None"
    by (auto simp: LoginReq_valid_iff)
  then have "validate_Struct (LoginReq_errors isEmail ?input) = Some (LoginReq_errors isEmail ?input)"
    by (rule validate_Struct_Some)
  then show ?thesis
    by (simp add: serverAPI_Login_def status_class_def status_Error_def)
qed

theorem Login_invalid_request_rejected_witness:
  "serverAPI_Login fake_isEmail (RegisterServerAPI counting_Auth)
      (Some \<lparr>LoginRequest_Email = ''alice@example.com'', LoginRequest_Password = '''',
             LoginRequest_AppId = 1\<rparr>) 0
   = ((None, Some \<lparr>Status_code = InvalidArgument,
        Status_message = ''Key: '' @ [CHR 0x27] @ ''LoginReq.Password'' @ [CHR 0x27]
          @ '' Error:Field validation for '' @ [CHR 0x27] @ ''Password'' @ [CHR 0x27]
          @ '' failed on the '' @ [CHR 0x27] @ ''required'' @ [CHR 0x27] @ '' tag''\<rparr>), 0)"
proof -
  let ?req = "Some \<lparr>LoginRequest_Email = ''alice@example.com'', LoginRequest_Password = '''',
                     LoginRequest_AppId = 1\<rparr>"
  have empty: "LoginRequest_GetPassword ?req = ''''"
    by (simp add: LoginRequest_GetPassword_def)
  then have bad: "LoginRequest_GetPassword ?req = ''''
           \<or> LoginRequest_GetEmail ?req = ''''
           \<or> \<not> fake_isEmail (LoginRequest_GetEmail ?req)
           \<or> sint (LoginRequest_GetAppId ?req) \<le> 0"
    by simp
  show ?thesis
    using Login_invalid_request_rejected
            [where req = ?req and isEmail = fake_isEmail
               and srv = "RegisterServerAPI counting_Auth" and s = 0] bad
    by (simp add: LoginReq_errors_def validate_field_def fake_isEmail_def status_Error_def
        LoginRequest_GetEmail_def LoginRequest_GetPassword_def LoginRequest_GetAppId_def)
qed

subsection \<open>The admin check\<close>



text \<open>
  C7. Stated in the specification: an admin-check request that passes validation and for
  which the user provider reports that the user is not found is answered with the status
  class \<open>NotFound\<close>. The caller gets \<open>Unimplemented\<close>: the method with the
  \<open>NotFound\<close> branch is the unexported \<open>isAdmin\<close>, and the registered server answers
  with the stub of the embedded struct (lemma \<open>AuthServer_IsAdmin_Unimplemented\<close>); the
  provider is not asked. Evaluated for user number 7, whom the store does not know:
\<close>

theorem AuthServer_IsAdmin_user_not_found_Unimplemented:
  "validate_Struct (AdminCheckReq_errors \<lparr>AdminCheckReq_UserID = 7\<rparr>) = None
   \<and> snd (fst (userProvider_IsAdmin fake_Auth 7 0))
     = Some (WrapError ''storage.IsAdmin: '' (Sentinel storage_ErrUserNotFound))
   \<and> errors_Is (WrapError ''storage.IsAdmin: '' (Sentinel storage_ErrUserNotFound))
        storage_ErrUserNotFound
   \<and> AuthServer_IsAdmin fake_server (Some \<lparr>IsAdminRequest_UserId = 7\<rparr>) 0
     = ((None, Some \<lparr>Status_code = Unimplemented,
                     Status_message = ''method IsAdmin not implemented''\<rparr>), 0)"
proof -
  have valid: "validate_Struct (AdminCheckReq_errors \<lparr>AdminCheckReq_UserID = 7\<rparr>) = None"
    by (simp add: AdminCheckReq_valid_iff)
  have report: "snd (fst (userProvider_IsAdmin fake_Auth 7 0))
                = Some (WrapError ''storage.IsAdmin: '' (Sentinel storage_ErrUserNotFound))"
    by (simp add: fake_Auth_def alice_def)
  have answer: "AuthServer_IsAdmin fake_server (Some \<lparr>IsAdminRequest_UserId = 7\<rparr>) 0
     = ((None, Some \<lparr>Status_code = Unimplemented,
                     Status_message = ''method IsAdmin not implemented''\<rparr>), 0)"
    by (simp add: AuthServer_IsAdmin_def UnimplementedAuthServer_IsAdmin_def status_Error_def)
  from valid report answer show ?thesis by simp
qed

subsection \<open>Values returned with an error\<close>

text \<open>
  C10. Whenever one of the three operations of the core returns an error, the value beside
  it is the zero value of its type: the empty token for \<open>Login\<close>, user number 0 for
  \<open>RegisterNewUser\<close>, \<open>false\<close> for \<open>IsAdmin\<close>.
\<close>

theorem core_error_zero_value:
  "(snd (fst (Login L a email password appId s)) \<noteq> None
      \<longrightarrow> fst (fst (Login L a email password appId s)) = '''')
   \<and> (snd (fst (RegisterNewUser L a email' password' s')) \<noteq> None
      \<longrightarrow> fst (fst (RegisterNewUser L a email' password' s')) = 0)
   \<and> (snd (fst (IsAdmin a userId s'')) \<noteq> None
      \<longrightarrow> fst (fst (IsAdmin a userId s'')) = False)"
  by (simp add: Login_error_token RegisterNewUser_error_id IsAdmin_error_flag)

theorem core_error_zero_value_witness:
  "snd (fst (Login fake_lib fake_Auth ''mallory@example.com'' ''guess'' 1 0)) \<noteq> None
   \<and> fst (fst (Login fake_lib fake_Auth ''mallory@example.com'' ''guess'' 1 0)) = ''''
   \<and> snd (fst (RegisterNewUser fake_lib fake_Auth ''alice@example.com'' ''secret'' 0)) \<noteq> None
   \<and> fst (fst (RegisterNewUser fake_lib fake_Auth ''alice@example.com'' ''secret'' 0)) = 0
   \<and> snd (fst (IsAdmin fake_Auth 7 0)) \<noteq> None
   \<and> fst (fst (IsAdmin fake_Auth 7 0)) = False"
proof -
  have login: "snd (fst (Login fake_lib fake_Auth ''mallory@example.com'' ''guess'' 1 0)) \<noteq> None"
    by (simp add: Login_def fake_Auth_def alice_def)
  have register:
    "snd (fst (RegisterNewUser fake_lib fake_Auth ''alice@example.com'' ''secret'' 0)) \<noteq> None"
    by (simp add: RegisterNewUser_def fake_lib_def fake_Auth_def alice_def)
  have admin: "snd (fst (IsAdmin fake_Auth 7 0)) \<noteq> None"
    by (simp add: IsAdmin_def fake_Auth_def alice_def)
  show ?thesis
    using core_error_zero_value [of fake_lib fake_Auth "''mallory@example.com''" "''guess''" 1 0
        "''alice@example.com''" "''secret''" 0 7 0] login register admin
    by simp
qed

end
